theory Spec2Isabelle
  imports Complex_Main "HOL-Library.Sublist"
begin

section \<open>JavaScript values\<close>

text \<open>
  The values the review proxy handles are those a JSON document parses to, together with
  \<open>undefined\<close>, which a read of a missing property yields. Numbers are kept as
  rationals: the handler copies them and tests them for zero only. An object is the list
  of its members; a parsed object holds each key once.
\<close>

datatype jsval =
    JUndefined
  | JNull
  | JBool bool
  | JNum rat
  | JStr string
  | JArr "jsval list"
  | JObj "(string \<times> jsval) list"

text \<open>JavaScript truthiness: what \<open>!v\<close>, \<open>a || b\<close> and \<open>a && b\<close> test.\<close>

fun truthy :: "jsval \<Rightarrow> bool" where
  "truthy JUndefined = False"
| "truthy JNull = False"
| "truthy (JBool b) = b"
| "truthy (JNum n) = (n \<noteq> 0)"
| "truthy (JStr s) = (s \<noteq> [])"
| "truthy (JArr xs) = True"
| "truthy (JObj ps) = True"

text \<open>\<open>a || b\<close>\<close>

definition or_else :: "jsval \<Rightarrow> jsval \<Rightarrow> jsval" where
  "or_else a b = (if truthy a then a else b)"

fun nullish :: "jsval \<Rightarrow> bool" where
  "nullish JUndefined = True"
| "nullish JNull = True"
| "nullish v = False"

text \<open>
  The exceptions of the handler's \<open>try\<close> block: a rejected promise of \<open>fetch\<close> or of
  \<open>res.json()\<close>, carrying its message, and the two kinds of \<open>TypeError\<close> the
  expressions of the block can raise. The wording of a \<open>TypeError\<close> is the engine's.
\<close>

datatype type_error =
    Read_property_of jsval string
  | Not_a_function

datatype js_error =
    Rejection string
  | TypeError type_error

text \<open>
  \<open>v.k\<close> for the property names the handler reads (none of them is defined on a
  prototype): the member of an object, \<open>undefined\<close> on any other value, and a
  \<open>TypeError\<close> on \<open>null\<close> and \<open>undefined\<close>.
\<close>

fun read_prop :: "jsval \<Rightarrow> string \<Rightarrow> jsval" where
  "read_prop (JObj ps) k = (case map_of ps k of Some v \<Rightarrow> v | None \<Rightarrow> JUndefined)"
| "read_prop v k = JUndefined"

definition get_prop :: "jsval \<Rightarrow> string \<Rightarrow> js_error + jsval" where
  "get_prop v k = (if nullish v then Inl (TypeError (Read_property_of v k)) else Inr (read_prop v k))"

text \<open>\<open>v?.k\<close>\<close>

definition opt_prop :: "jsval \<Rightarrow> string \<Rightarrow> jsval" where
  "opt_prop v k = (if nullish v then JUndefined else read_prop v k)"

text \<open>\<open>Array.prototype.map\<close> with a callback that may throw: the first throw ends the call.\<close>

fun array_map :: "('a \<Rightarrow> 'e + 'b) \<Rightarrow> 'a list \<Rightarrow> 'e + 'b list" where
  "array_map f [] = Inr []"
| "array_map f (x # xs) =
     (case f x of
        Inl e \<Rightarrow> Inl e
      | Inr y \<Rightarrow> (case array_map f xs of Inl e \<Rightarrow> Inl e | Inr ys \<Rightarrow> Inr (y # ys)))"

section \<open>The review proxy (Netlify function)\<close>

definition YELP_BUSINESS_ID :: string where
  "YELP_BUSINESS_ID = ''elena-ruzanova-personal-trainer-and-nutritionist-san-jose''"

definition CACHE_TTL_MS :: int where
  "CACHE_TTL_MS = 60 * 60 * 1000"

text \<open>The module state: \<open>cached\<close> (\<open>null\<close> is \<open>None\<close>) and \<open>cacheTime\<close>.\<close>

record state =
  cached :: "jsval option"
  cacheTime :: int

definition initial_state :: state where
  "initial_state = \<lparr>cached = None, cacheTime = 0\<rparr>"

record event =
  httpMethod :: string

text \<open>
  A response body is a string: a literal of the source or \<open>JSON.stringify\<close> of a value.
  The stringification is the platform's and stays symbolic.
\<close>

datatype body = Literal string | JSON_stringify jsval

record reply =
  statusCode :: int
  headers :: "(string \<times> string) list"
  body :: body

text \<open>
  What the upstream does when called: \<open>fetch\<close> rejects, or resolves with a response
  that has a status and whose \<open>json()\<close> rejects or resolves with the parsed body.
  \<open>res.ok\<close> is the Fetch standard's: a status from 200 to 299.
\<close>

record upstream_response =
  res_status :: int
  res_json :: "string + jsval"

datatype fetch_result = Rejects string | Resolves upstream_response

definition ok :: "upstream_response \<Rightarrow> bool" where
  "ok res = (200 \<le> res_status res \<and> res_status res \<le> 299)"

text \<open>
  Everything an invocation reads from outside the module: the environment variable
  \<open>YELP_API_KEY\<close> (\<open>None\<close> when unset), the clock at the freshness test and at the
  store, the upstream, and the engine's wording of a \<open>TypeError\<close>.
\<close>

record env =
  apiKey :: "string option"
  now_at_check :: int
  now_at_store :: int
  upstream :: fetch_result
  engine_message :: "type_error \<Rightarrow> string"

text \<open>An upstream call, as the handler issues it: the URL and the \<open>Authorization\<close> header.\<close>

record upstream_call =
  call_url :: string
  authorization :: string

definition cors_headers :: "(string \<times> string) list" where
  "cors_headers =
     [(''Access-Control-Allow-Origin'', ''*''),
      (''Access-Control-Allow-Headers'', ''Content-Type''),
      (''Content-Type'', ''application/json'')]"

definition respond :: "int \<Rightarrow> body \<Rightarrow> reply" where
  "respond code b = \<lparr>statusCode = code, headers = cors_headers, body = b\<rparr>"

text \<open>\<open>{ error: e, reviews: [] }\<close>\<close>

definition error_payload :: "string \<Rightarrow> jsval" where
  "error_payload e = JObj [(''error'', JStr e), (''reviews'', JArr [])]"

text \<open>\<open>err.message\<close>\<close>

fun message :: "(type_error \<Rightarrow> string) \<Rightarrow> js_error \<Rightarrow> string" where
  "message eng (Rejection m) = m"
| "message eng (TypeError t) = eng t"

text \<open>
  The callback of \<open>map\<close> at lines 47 to 53: one upstream review to the normalised shape.
  The object literal reads \<open>r.rating\<close> first, which throws on \<open>null\<close>; the later
  reads are of the same \<open>r\<close>.
\<close>

definition review_object :: "jsval \<Rightarrow> jsval" where
  "review_object r =
     JObj
       [(''rating'', read_prop r ''rating''),
        (''text'', read_prop r ''text''),
        (''time_created'', read_prop r ''time_created''),
        (''user'', JObj
           [(''name'', or_else (opt_prop (read_prop r ''user'') ''name'') (JStr ''Anonymous'')),
            (''location'',
               or_else (opt_prop (read_prop r ''user'') ''location'') (JStr ''California''))]),
        (''url'', read_prop r ''url'')]"

definition normalize_review :: "jsval \<Rightarrow> js_error + jsval" where
  "normalize_review r =
     (case get_prop r ''rating'' of
        Inl e \<Rightarrow> Inl e
      | Inr rating \<Rightarrow> Inr (review_object r))"

text \<open>\<open>(data.reviews || []).map(...)\<close>: only an array has a \<open>map\<close> to call.\<close>

definition map_reviews :: "jsval \<Rightarrow> js_error + jsval list" where
  "map_reviews data =
     (case get_prop data ''reviews'' of
        Inl e \<Rightarrow> Inl e
      | Inr v \<Rightarrow>
          (case or_else v (JArr []) of
             JArr rs \<Rightarrow> array_map normalize_review rs
           | _ \<Rightarrow> Inl (TypeError Not_a_function)))"

definition the_call :: "string \<Rightarrow> upstream_call" where
  "the_call key =
     \<lparr>call_url = ''https://api.yelp.com/v3/businesses/'' @ YELP_BUSINESS_ID @ ''/reviews'',
      authorization = ''Bearer '' @ key\<rparr>"

text \<open>
  The \<open>try\<close> block, lines 35 to 56: it ends with a reply or with an exception, and
  with the module state as it is at that point.
\<close>

definition try_block :: "env \<Rightarrow> state \<Rightarrow> (js_error + reply) \<times> state" where
  "try_block e s =
     (case upstream e of
        Rejects m \<Rightarrow> (Inl (Rejection m), s)
      | Resolves res \<Rightarrow>
          if \<not> ok res then
            (Inr (respond (res_status res) (JSON_stringify (error_payload ''Yelp API error''))), s)
          else
            (case res_json res of
               Inl m \<Rightarrow> (Inl (Rejection m), s)
             | Inr data \<Rightarrow>
                 (case map_reviews data of
                    Inl err \<Rightarrow> (Inl err, s)
                  | Inr reviews \<Rightarrow>
                      (let c = JObj [(''reviews'', JArr reviews)];
                           s1 = s\<lparr>cached := Some c\<rparr>;
                           s2 = s1\<lparr>cacheTime := now_at_store e\<rparr>
                       in (Inr (respond 200 (JSON_stringify c)), s2)))))"

text \<open>
  \<open>exports.handler\<close>: the reply, the module state afterwards and the upstream calls made.
  \<open>!apiKey\<close> holds of an unset variable and of the empty string.
\<close>

definition not_configured :: "env \<Rightarrow> bool" where
  "not_configured e = (apiKey e = None \<or> apiKey e = Some [])"

definition fresh :: "env \<Rightarrow> state \<Rightarrow> bool" where
  "fresh e s = (cached s \<noteq> None \<and> now_at_check e - cacheTime s < CACHE_TTL_MS)"

definition handler :: "env \<Rightarrow> event \<Rightarrow> state \<Rightarrow> reply \<times> state \<times> upstream_call list" where
  "handler e ev s =
     (if httpMethod ev = ''OPTIONS'' then (respond 204 (Literal ''''), s, [])
      else if fresh e s then (respond 200 (JSON_stringify (the (cached s))), s, [])
      else if not_configured e then
        (respond 500 (JSON_stringify (error_payload ''YELP_API_KEY not configured'')), s, [])
      else
        (case try_block e s of
           (Inr r, s') \<Rightarrow> (r, s', [the_call (the (apiKey e))])
         | (Inl err, s') \<Rightarrow>
             (respond 500 (JSON_stringify (error_payload (message (engine_message e) err))),
              s', [the_call (the (apiKey e))])))"

section \<open>The asset cache worker (service worker)\<close>

definition CACHE_NAME :: string where
  "CACHE_NAME = ''ruzanova-fitness-v4''"

text \<open>
  A response, as far as the worker and the Cache API look at it: status, type, the field
  names listed by its \<open>Vary\<close> header (none when it has no such header) and the body.
  A request: method, URL, destination and headers. Header names are taken in the lower
  case the platform compares them in.
\<close>

datatype response_type = Basic | Cors | Default | Error | Opaque | Opaqueredirect

record response =
  status :: int
  rtype :: response_type
  vary :: "string list"
  content :: string

record request =
  request_method :: string
  url :: string
  destination :: string
  request_headers :: "(string \<times> string) list"

text \<open>
  \<open>Response\<close> objects. The body of a response can be read once, so an object is a
  response together with the flag \<open>bodyUsed\<close>, and the objects of one event live in a
  store, addressed by their position: two variables that hold the same object hold the
  same address. Every address below comes from \<open>new_object\<close>.
\<close>

type_synonym ref = nat

type_synonym objects = "(response \<times> bool) list"

definition new_object :: "response \<Rightarrow> objects \<Rightarrow> ref \<times> objects" where
  "new_object r objs = (length objs, objs @ [(r, False)])"

definition response_of :: "objects \<Rightarrow> ref \<Rightarrow> response" where
  "response_of objs p = fst (objs ! p)"

definition bodyUsed :: "objects \<Rightarrow> ref \<Rightarrow> bool" where
  "bodyUsed objs p = snd (objs ! p)"

definition read_body :: "ref \<Rightarrow> objects \<Rightarrow> objects" where
  "read_body p objs = objs[p := (response_of objs p, True)]"

text \<open>
  \<open>response.clone()\<close>: a second object with a body of its own; a \<open>TypeError\<close>
  (\<open>None\<close>) when the body has been read.
\<close>

definition clone :: "ref \<Rightarrow> objects \<Rightarrow> (ref \<times> objects) option" where
  "clone p objs =
     (if bodyUsed objs p then None else Some (new_object (response_of objs p) objs))"

text \<open>
  A cache lists pairs of a request and the response stored for it, in the order of their
  insertion; the cache storage lists the caches by name, in the order of their creation.
  A request matches an entry, as the Cache API defines it with its default options, when
  the request is a \<open>GET\<close>, the two URLs are equal up to their fragments, and for every
  field name of the stored response's \<open>Vary\<close> the name is not \<open>*\<close> and the two requests
  agree on that header.
\<close>

type_synonym cache = "(request \<times> response) list"

type_synonym cache_storage = "(string \<times> cache) list"

definition strip_fragment :: "string \<Rightarrow> string" where
  "strip_fragment u = takeWhile (\<lambda>c. c \<noteq> CHR ''#'') u"

definition matches :: "request \<Rightarrow> request \<times> response \<Rightarrow> bool" where
  "matches q entry =
     (request_method q = ''GET'' \<and>
      strip_fragment (url q) = strip_fragment (url (fst entry)) \<and>
      list_all
        (\<lambda>f. f \<noteq> ''*'' \<and>
           map_of (request_headers q) f = map_of (request_headers (fst entry)) f)
        (vary (snd entry)))"

text \<open>\<open>cache.match\<close>: the response of the first matching entry.\<close>

definition cache_match :: "cache \<Rightarrow> request \<Rightarrow> response option" where
  "cache_match c q = map_option snd (find (matches q) c)"

text \<open>\<open>caches.match\<close>: the caches are asked in the order of their creation.\<close>

fun caches_match :: "cache_storage \<Rightarrow> request \<Rightarrow> response option" where
  "caches_match [] q = None"
| "caches_match ((n, c) # rest) q =
     (case cache_match c q of Some r \<Rightarrow> Some r | None \<Rightarrow> caches_match rest q)"

definition caches_keys :: "cache_storage \<Rightarrow> string list" where
  "caches_keys st = map fst st"

definition caches_delete :: "string \<Rightarrow> cache_storage \<Rightarrow> cache_storage" where
  "caches_delete n st = filter (\<lambda>(m, c). m \<noteq> n) st"

text \<open>
  \<open>cache.put(q, r)\<close> is rejected with a \<open>TypeError\<close>, before anything is read or
  written, unless the URL is an http(s) one, the request a \<open>GET\<close>, the status not 206, no
  \<open>Vary\<close> field name is \<open>*\<close> and the body of \<open>r\<close> is unread. Otherwise it reads the
  body of \<open>r\<close> and replaces the entries that \<open>q\<close> matches by the new pair, which may
  fail for lack of quota and then leaves the cache as it was.
\<close>

definition put_allowed :: "request \<Rightarrow> response \<Rightarrow> bool" where
  "put_allowed q r =
     ((prefix ''http:'' (url q) \<or> prefix ''https:'' (url q)) \<and>
      request_method q = ''GET'' \<and>
      status r \<noteq> 206 \<and>
      ''*'' \<notin> set (vary r))"

text \<open>
  What becomes of a write that the listener starts and does not wait for: the worker is
  stopped before \<open>caches.open\<close> and \<open>cache.put\<close> run, or the cache is opened and
  the entry is not written (the quota is exceeded, or the worker is stopped in between),
  or they run and the storage takes the entry.
\<close>

datatype write_fate = Worker_stopped | Quota_exceeded | Storage_ok

definition cache_put :: "write_fate \<Rightarrow> request \<Rightarrow> response \<Rightarrow> bool \<Rightarrow> cache \<Rightarrow> cache" where
  "cache_put fate q r used c =
     (if put_allowed q r \<and> \<not> used \<and> fate = Storage_ok
      then filter (\<lambda>entry. \<not> matches q entry) c @ [(q, r)]
      else c)"

text \<open>\<open>caches.open(n)\<close> followed by a change \<open>f\<close> of that cache; a missing cache is created.\<close>

fun in_cache :: "string \<Rightarrow> (cache \<Rightarrow> cache) \<Rightarrow> cache_storage \<Rightarrow> cache_storage" where
  "in_cache n f [] = [(n, f [])]"
| "in_cache n f ((m, c) # rest) =
     (if m = n then (m, f c) # rest else (m, c) # in_cache n f rest)"

text \<open>
  \<open>caches.open(n).then((cache) => { cache.put(q, p); })\<close>, lines 89 to 92, for the
  object at \<open>p\<close>: the storage and the objects afterwards. The promise is neither awaited
  nor returned, and a rejection of the put is not handled: it changes nothing else.
\<close>

definition open_and_put ::
  "write_fate \<Rightarrow> string \<Rightarrow> request \<Rightarrow> ref \<Rightarrow> cache_storage \<Rightarrow> objects \<Rightarrow> cache_storage \<times> objects" where
  "open_and_put fate n q p st objs =
     (if fate = Worker_stopped then (st, objs)
      else
        (in_cache n (cache_put fate q (response_of objs p) (bodyUsed objs p)) st,
         if put_allowed q (response_of objs p) \<and> \<not> bodyUsed objs p
         then read_body p objs else objs))"

text \<open>
  The \<open>activate\<close> listener: for each name that \<open>caches.keys()\<close> lists, in turn, delete
  the cache unless the name is \<open>CACHE_NAME\<close>.
\<close>

fun delete_old :: "string list \<Rightarrow> cache_storage \<Rightarrow> cache_storage" where
  "delete_old [] st = st"
| "delete_old (cacheName # names) st =
     delete_old names (if cacheName \<noteq> CACHE_NAME then caches_delete cacheName st else st)"

definition activate :: "cache_storage \<Rightarrow> cache_storage" where
  "activate st = delete_old (caches_keys st) st"

text \<open>
  What the network does with a request that the worker fetches: the promise of \<open>fetch\<close>
  resolves with a response or rejects.
\<close>

datatype network = Fetched response | Fetch_failed

text \<open>
  The outcome for the page: the listener returned without \<open>respondWith\<close>, so the browser
  handles the request as if there were no worker, or \<open>respondWith\<close> got a promise that
  resolves with \<open>undefined\<close>, which the page sees as a failed fetch, or with a response
  object, given here as the page finds it: the response and whether its body has been
  read already.
\<close>

datatype handled = Passed_through | Responded_with "(response \<times> bool) option"

text \<open>
  The callback of \<open>then\<close>, lines 80 to 95, on the result of \<open>fetch\<close>: the object it
  returns, the storage and the objects afterwards, or \<open>None\<close> when the promise rejects,
  because \<open>fetch\<close> did or because \<open>clone\<close> threw. A response that \<open>fetch\<close> resolves
  with is a new object and never \<open>null\<close>.
\<close>

definition fetch_then ::
  "network \<Rightarrow> write_fate \<Rightarrow> request \<Rightarrow> cache_storage \<Rightarrow> (ref \<times> cache_storage \<times> objects) option" where
  "fetch_then net fate req st =
     (case net of
        Fetch_failed \<Rightarrow> None
      | Fetched fetched \<Rightarrow>
          (case new_object fetched [] of
             (response, objs) \<Rightarrow>
               if status (response_of objs response) \<noteq> 200 \<or>
                  rtype (response_of objs response) \<noteq> Basic
               then Some (response, st, objs)
               else
                 (case clone response objs of
                    None \<Rightarrow> None
                  | Some (responseToCache, objs1) \<Rightarrow>
                      (case open_and_put fate CACHE_NAME req responseToCache st objs1 of
                         (st', objs2) \<Rightarrow> Some (response, st', objs2)))))"

text \<open>
  The request that \<open>caches.match('/index.html')\<close> makes of its string: a \<open>GET\<close> without
  headers for the URL resolved against the worker's own.
\<close>

definition index_request :: "string \<Rightarrow> request" where
  "index_request origin =
     \<lparr>request_method = ''GET'', url = origin @ ''/index.html'', destination = '''',
      request_headers = []\<rparr>"

text \<open>
  The \<open>fetch\<close> listener, for a worker at \<open>origin\<close> (\<open>self.location.origin\<close>): the
  outcome, the cache storage once the write has run or failed, and the URLs the listener
  fetched from the network. \<open>startsWith\<close> is \<open>prefix\<close>. A response that
  \<open>caches.match\<close> resolves with is a new object, its body unread.
\<close>

definition on_fetch ::
  "string \<Rightarrow> network \<Rightarrow> write_fate \<Rightarrow> request \<Rightarrow> cache_storage \<Rightarrow>
     handled \<times> cache_storage \<times> string list" where
  "on_fetch origin net fate req st =
     (if request_method req \<noteq> ''GET'' then (Passed_through, st, [])
      else if \<not> prefix origin (url req) then (Passed_through, st, [])
      else
        (case caches_match st req of
           Some cachedResponse \<Rightarrow> (Responded_with (Some (cachedResponse, False)), st, [])
         | None \<Rightarrow>
             (case fetch_then net fate req st of
                Some (response, st', objs) \<Rightarrow>
                  (Responded_with (Some (response_of objs response, bodyUsed objs response)),
                   st', [url req])
              | None \<Rightarrow>
                  if destination req = ''document'' then
                    (Responded_with
                       (map_option (\<lambda>r. (r, False)) (caches_match st (index_request origin))),
                     st, [url req])
                  else (Responded_with None, st, [url req]))))"

text \<open>
  The origin of a serialised http(s) URL, as the URL standard gives it: the scheme,
  \<open>://\<close>, the host and the port, that is everything before the first \<open>/\<close> of the path.
\<close>

definition url_origin :: "string \<Rightarrow> string" where
  "url_origin u =
     (let scheme = takeWhile (\<lambda>c. c \<noteq> CHR '':'') u
      in take (length scheme + 3) u
         @ takeWhile (\<lambda>c. c \<noteq> CHR ''/'') (drop (length scheme + 3) u))"

section \<open>Vocabulary of the statements\<close>

text \<open>
  An invocation reaches the upstream call when it is not a pre-flight, the cache is not
  fresh and a credential is configured.
\<close>

definition attempts_upstream :: "env \<Rightarrow> event \<Rightarrow> state \<Rightarrow> bool" where
  "attempts_upstream e ev s = (httpMethod ev \<noteq> ''OPTIONS'' \<and> \<not> fresh e s \<and> \<not> not_configured e)"

text \<open>
  The reviews of an upstream body, \<open>data.reviews || []\<close>, and the bodies on which lines
  47 to 53 raise nothing: the body is not \<open>null\<close>, its \<open>reviews\<close> is falsy or an array,
  and no entry of the array is \<open>null\<close>.
\<close>

definition upstream_reviews :: "jsval \<Rightarrow> jsval list" where
  "upstream_reviews data =
     (case or_else (read_prop data ''reviews'') (JArr []) of JArr rs \<Rightarrow> rs | _ \<Rightarrow> [])"

definition well_formed :: "jsval \<Rightarrow> bool" where
  "well_formed data =
     (\<not> nullish data \<and>
      (case or_else (read_prop data ''reviews'') (JArr []) of
         JArr rs \<Rightarrow> list_all (\<lambda>r. \<not> nullish r) rs
       | _ \<Rightarrow> False))"

text \<open>The response stored for a request in the cache of a given name.\<close>

definition stored_in :: "string \<Rightarrow> cache_storage \<Rightarrow> request \<Rightarrow> response option" where
  "stored_in n st q = (case map_of st n of None \<Rightarrow> None | Some c \<Rightarrow> cache_match c q)"

text \<open>Sample inputs for the concrete instances below.\<close>

definition plain_engine :: "type_error \<Rightarrow> string" where
  "plain_engine t = ''TypeError''"

definition env_with :: "string option \<Rightarrow> int \<Rightarrow> fetch_result \<Rightarrow> env" where
  "env_with key now up =
     \<lparr>apiKey = key, now_at_check = now, now_at_store = now + 500, upstream = up,
      engine_message = plain_engine\<rparr>"

definition stale_state :: state where
  "stale_state = \<lparr>cached = Some (JObj [(''reviews'', JArr [])]), cacheTime = 0\<rparr>"

definition sample_storage :: cache_storage where
  "sample_storage =
     [(''ruzanova-fitness-v4'',
       [(\<lparr>request_method = ''GET'', url = ''https://ruzanovafit.com/index.html'',
          destination = '''', request_headers = []\<rparr>,
         \<lparr>status = 200, rtype = Basic, vary = [], content = ''<html>''\<rparr>)])]"

section \<open>Lemmas on the review proxy\<close>

lemma array_map_total:
  "(\<And>x. x \<in> set xs \<Longrightarrow> f x = Inr (g x)) \<Longrightarrow> array_map f xs = Inr (map g xs)"
  by (induction xs) auto

lemma array_map_throws:
  "x \<in> set xs \<Longrightarrow> f x = Inl e \<Longrightarrow> \<exists>e'. array_map f xs = Inl e'"
  by (induction xs) (auto split: sum.splits)

lemma array_map_Inl: "array_map f xs = Inl e \<Longrightarrow> \<exists>x \<in> set xs. f x = Inl e"
  by (induction xs) (auto split: sum.splits)

lemma normalize_review_ok: "\<not> nullish r \<Longrightarrow> normalize_review r = Inr (review_object r)"
  by (simp add: normalize_review_def get_prop_def)

lemma normalize_review_throws:
  "nullish r \<Longrightarrow> normalize_review r = Inl (TypeError (Read_property_of r ''rating''))"
  by (simp add: normalize_review_def get_prop_def)

lemma normalize_review_Inl: "normalize_review r = Inl err \<Longrightarrow> \<exists>t. err = TypeError t"
  by (auto simp: normalize_review_def get_prop_def split: if_splits)

lemma review_object_shape:
  "\<exists>name location.
     review_object r =
       JObj
         [(''rating'', read_prop r ''rating''),
          (''text'', read_prop r ''text''),
          (''time_created'', read_prop r ''time_created''),
          (''user'', JObj [(''name'', name), (''location'', location)]),
          (''url'', read_prop r ''url'')] \<and>
     (opt_prop (read_prop r ''user'') ''name'' = JUndefined \<longrightarrow> name = JStr ''Anonymous'') \<and>
     (opt_prop (read_prop r ''user'') ''location'' = JUndefined \<longrightarrow>
        location = JStr ''California'') \<and>
     (truthy (opt_prop (read_prop r ''user'') ''name'') \<longrightarrow>
        name = opt_prop (read_prop r ''user'') ''name'') \<and>
     (truthy (opt_prop (read_prop r ''user'') ''location'') \<longrightarrow>
        location = opt_prop (read_prop r ''user'') ''location'')"
  by (simp add: review_object_def or_else_def)

lemma map_reviews_well_formed:
  assumes "well_formed data"
  shows "map_reviews data = Inr (map review_object (upstream_reviews data))"
proof -
  from assms have nn: "\<not> nullish data" by (simp add: well_formed_def)
  from assms obtain rs where rs: "or_else (read_prop data ''reviews'') (JArr []) = JArr rs"
    and all: "list_all (\<lambda>r. \<not> nullish r) rs"
    by (auto simp: well_formed_def split: jsval.splits)
  have "array_map normalize_review rs = Inr (map review_object rs)"
    using all by (intro array_map_total) (simp add: list_all_iff normalize_review_ok)
  with nn rs show ?thesis
    by (simp add: map_reviews_def get_prop_def upstream_reviews_def)
qed

lemma map_reviews_ill_formed:
  assumes "\<not> well_formed data"
  shows "\<exists>err. map_reviews data = Inl err"
proof (cases "nullish data")
  case True
  then show ?thesis by (simp add: map_reviews_def get_prop_def)
next
  case False
  show ?thesis
  proof (cases "or_else (read_prop data ''reviews'') (JArr [])")
    case (JArr rs)
    with False assms obtain r where "r \<in> set rs" "nullish r"
      by (auto simp: well_formed_def list_all_iff)
    then have "\<exists>e'. array_map normalize_review rs = Inl e'"
      by (intro array_map_throws[where x = r]) (simp_all add: normalize_review_throws)
    with False JArr show ?thesis
      by (simp add: map_reviews_def get_prop_def)
  qed (use False in \<open>simp_all add: map_reviews_def get_prop_def\<close>)
qed

lemma map_reviews_Inl:
  assumes "map_reviews data = Inl err"
  shows "\<exists>t. err = TypeError t"
proof (cases "nullish data")
  case True
  with assms show ?thesis by (auto simp: map_reviews_def get_prop_def)
next
  case False
  show ?thesis
  proof (cases "or_else (read_prop data ''reviews'') (JArr [])")
    case (JArr rs)
    with False assms have "array_map normalize_review rs = Inl err"
      by (simp add: map_reviews_def get_prop_def)
    then show ?thesis
      by (blast dest: array_map_Inl normalize_review_Inl)
  qed (use False assms in \<open>auto simp: map_reviews_def get_prop_def\<close>)
qed

lemma map_reviews_absent:
  assumes "get_prop data ''reviews'' = Inr v" "\<not> truthy v"
  shows "map_reviews data = Inr []"
  using assms by (simp add: map_reviews_def or_else_def)

lemma well_formed_array:
  assumes "get_prop data ''reviews'' = Inr (JArr rs)"
  shows "well_formed data = list_all (\<lambda>r. \<not> nullish r) rs"
    and "upstream_reviews data = rs"
  using assms
  by (auto simp: well_formed_def upstream_reviews_def get_prop_def or_else_def split: if_splits)

lemma handler_fresh:
  assumes "httpMethod ev \<noteq> ''OPTIONS''" "cached s = Some payload"
    "now_at_check e - cacheTime s < CACHE_TTL_MS"
  shows "handler e ev s = (respond 200 (JSON_stringify payload), s, [])"
  using assms by (simp add: handler_def fresh_def)

lemma handler_attempt:
  assumes "attempts_upstream e ev s"
  shows "handler e ev s =
     (case try_block e s of
        (Inr r, s') \<Rightarrow> (r, s', [the_call (the (apiKey e))])
      | (Inl err, s') \<Rightarrow>
          (respond 500 (JSON_stringify (error_payload (message (engine_message e) err))),
           s', [the_call (the (apiKey e))]))"
  using assms by (simp add: handler_def attempts_upstream_def)

lemma handler_success:
  assumes "attempts_upstream e ev s" "upstream e = Resolves res" "ok res"
    "res_json res = Inr data" "map_reviews data = Inr out"
  shows "handler e ev s =
     (respond 200 (JSON_stringify (JObj [(''reviews'', JArr out)])),
      \<lparr>cached = Some (JObj [(''reviews'', JArr out)]), cacheTime = now_at_store e\<rparr>,
      [the_call (the (apiKey e))])"
  using assms(2-) by (simp add: handler_attempt[OF assms(1)] try_block_def Let_def)

lemma try_block_thrown_state: "fst (try_block e s) = Inl err \<Longrightarrow> snd (try_block e s) = s"
  by (auto simp: try_block_def Let_def split: fetch_result.splits sum.splits if_splits)

lemma handler_thrown:
  assumes "attempts_upstream e ev s" "fst (try_block e s) = Inl err"
  shows "handler e ev s =
     (respond 500 (JSON_stringify (error_payload (message (engine_message e) err))),
      s, [the_call (the (apiKey e))])"
proof -
  from assms(2) have "try_block e s = (Inl err, s)"
    using try_block_thrown_state[OF assms(2)] by (cases "try_block e s") simp
  then show ?thesis
    by (simp add: handler_attempt[OF assms(1)])
qed

lemma handler_rejected:
  assumes "attempts_upstream e ev s" "upstream e = Rejects m"
  shows "handler e ev s =
     (respond 500 (JSON_stringify (error_payload m)), s, [the_call (the (apiKey e))])"
  using handler_thrown[OF assms(1), of "Rejection m"] assms(2) by (simp add: try_block_def)

lemma handler_parse_failed:
  assumes "attempts_upstream e ev s" "upstream e = Resolves res" "ok res" "res_json res = Inl m"
  shows "handler e ev s =
     (respond 500 (JSON_stringify (error_payload m)), s, [the_call (the (apiKey e))])"
  using handler_thrown[OF assms(1), of "Rejection m"] assms(2-) by (simp add: try_block_def)

lemma handler_type_error:
  assumes "attempts_upstream e ev s" "upstream e = Resolves res" "ok res"
    "res_json res = Inr data" "map_reviews data = Inl err"
  shows "handler e ev s =
     (respond 500 (JSON_stringify (error_payload (message (engine_message e) err))),
      s, [the_call (the (apiKey e))])"
  using handler_thrown[OF assms(1), of err] assms(2-) by (simp add: try_block_def)

lemma handler_not_ok:
  assumes "attempts_upstream e ev s" "upstream e = Resolves res" "\<not> ok res"
  shows "handler e ev s =
     (respond (res_status res) (JSON_stringify (error_payload ''Yelp API error'')),
      s, [the_call (the (apiKey e))])"
  using assms(2-) by (simp add: handler_attempt[OF assms(1)] try_block_def)

lemma handler_ill_formed_status:
  assumes "attempts_upstream e ev s" "upstream e = Resolves res" "ok res"
    "res_json res = Inr data" "\<not> well_formed data"
  shows "statusCode (fst (handler e ev s)) = 500"
proof -
  from assms(5) obtain err where "map_reviews data = Inl err"
    using map_reviews_ill_formed by blast
  from handler_type_error[OF assms(1-4) this] show ?thesis
    by (simp add: respond_def)
qed

lemma attempts_sample:
  "attempts_upstream (env_with (Some ''key'') 3660000 up) \<lparr>httpMethod = ''GET''\<rparr> stale_state"
  by (simp add: attempts_upstream_def env_with_def stale_state_def fresh_def not_configured_def
      CACHE_TTL_MS_def)

section \<open>Lemmas on the asset cache worker\<close>

lemma new_object_valid:
  assumes "new_object r objs = (p, objs')"
  shows "p < length objs'" and "response_of objs' p = r" and "\<not> bodyUsed objs' p"
  using assms by (auto simp: new_object_def response_of_def bodyUsed_def)

lemma find_append_none: "find P xs = None \<Longrightarrow> find P (xs @ ys) = find P ys"
  by (induction xs) (auto split: if_splits)

lemma matches_self:
  "request_method q = ''GET'' \<Longrightarrow> ''*'' \<notin> set (vary r) \<Longrightarrow> matches q (q, r)"
  by (auto simp: matches_def list_all_iff)

lemma cache_match_put:
  assumes "put_allowed q r"
  shows "cache_match (cache_put Storage_ok q r False c) q = Some r"
proof -
  have "find (matches q) (filter (\<lambda>entry. \<not> matches q entry) c) = None"
    by (simp add: find_None_iff)
  moreover have "matches q (q, r)"
    using assms by (simp add: put_allowed_def matches_self)
  ultimately show ?thesis
    using assms by (simp add: cache_match_def cache_put_def find_append_none)
qed

lemma cache_put_rejected:
  "\<not> (put_allowed q r \<and> \<not> used \<and> fate = Storage_ok) \<Longrightarrow> cache_put fate q r used c = c"
  by (auto simp: cache_put_def)

lemma stored_in_Cons:
  "stored_in n ((m, c) # rest) q = (if m = n then cache_match c q else stored_in n rest q)"
  by (simp add: stored_in_def)

lemma stored_in_miss: "caches_match st q = None \<Longrightarrow> stored_in n st q = None"
  by (induction st) (auto simp: stored_in_Cons stored_in_def split: option.splits)

lemma stored_in_put:
  "put_allowed q r \<Longrightarrow>
   stored_in n (in_cache n (cache_put Storage_ok q r False) st) q = Some r"
  by (induction st) (auto simp: stored_in_Cons cache_match_put)

lemma stored_in_rejected:
  assumes "caches_match st q = None" "\<not> (put_allowed q r \<and> fate = Storage_ok)"
  shows "stored_in n (in_cache n (cache_put fate q r False) st) q = None"
  using assms
  by (induction st)
    (auto simp: stored_in_Cons cache_put_rejected cache_match_def split: option.splits)

lemma url_origin_prefix: "prefix (url_origin u) u"
proof -
  define k where "k = length (takeWhile (\<lambda>c. c \<noteq> CHR '':'') u) + 3"
  have "prefix (takeWhile (\<lambda>c. c \<noteq> CHR ''/'') (drop k u)) (drop k u)"
    by (metis prefixI takeWhile_dropWhile_id)
  then have "prefix (take k u @ takeWhile (\<lambda>c. c \<noteq> CHR ''/'') (drop k u)) (take k u @ drop k u)"
    by (simp only: same_prefix_prefix)
  then show ?thesis
    by (simp add: url_origin_def k_def Let_def)
qed

text \<open>A same-origin request passes the \<open>startsWith\<close> test of the listener.\<close>

lemma same_origin_starts_with: "url_origin u = origin \<Longrightarrow> prefix origin u"
  using url_origin_prefix[of u] by simp

lemma delete_old_filter:
  "delete_old names st = filter (\<lambda>(n, c). n = CACHE_NAME \<or> n \<notin> set names) st"
proof (induction names arbitrary: st)
  case Nil
  then show ?case by (simp add: case_prod_unfold)
next
  case (Cons a names)
  show ?case
    by (auto simp: Cons.IH caches_delete_def case_prod_unfold intro!: filter_cong)
qed

lemma activate_filter: "activate st = filter (\<lambda>(n, c). n = CACHE_NAME) st"
proof -
  have "activate st = filter (\<lambda>(n, c). n = CACHE_NAME \<or> n \<notin> set (map fst st)) st"
    by (simp add: activate_def caches_keys_def delete_old_filter)
  also have "\<dots> = filter (\<lambda>(n, c). n = CACHE_NAME) st"
    by (rule filter_cong) force+
  finally show ?thesis .
qed

text \<open>What the two guards of the listener skip.\<close>

lemma skipped_requests:
  "request_method req \<noteq> ''GET'' \<or> \<not> prefix origin (url req) \<Longrightarrow>
   on_fetch origin net fate req st = (Passed_through, st, [])"
  by (auto simp: on_fetch_def)

text \<open>
  The callback on a response: the original object is returned, its body unread, and the
  write is started, on the clone, for status 200 and type \<open>basic\<close> only.
\<close>

lemma fetch_then_cacheable:
  assumes "status r = 200" "rtype r = Basic"
  shows "fetch_then (Fetched r) fate req st =
     Some (0,
       (if fate = Worker_stopped then st
        else in_cache CACHE_NAME (cache_put fate req r False) st),
       (if fate \<noteq> Worker_stopped \<and> put_allowed req r
        then [(r, False), (r, True)] else [(r, False), (r, False)]))"
  using assms
  by (simp add: fetch_then_def new_object_def clone_def response_of_def bodyUsed_def
      open_and_put_def read_body_def)

lemma fetch_then_other:
  assumes "status r \<noteq> 200 \<or> rtype r \<noteq> Basic"
  shows "fetch_then (Fetched r) fate req st = Some (0, st, [(r, False)])"
  using assms by (auto simp: fetch_then_def new_object_def response_of_def)

lemma on_fetch_fetched:
  assumes "request_method req = ''GET''" "prefix origin (url req)" "caches_match st req = None"
  shows "on_fetch origin (Fetched r) fate req st =
     (Responded_with (Some (r, False)),
      (if status r = 200 \<and> rtype r = Basic \<and> fate \<noteq> Worker_stopped
       then in_cache CACHE_NAME (cache_put fate req r False) st else st),
      [url req])"
proof (cases "status r = 200 \<and> rtype r = Basic")
  case True
  then show ?thesis
    using assms
    by (simp add: on_fetch_def fetch_then_cacheable response_of_def bodyUsed_def)
next
  case False
  then have "status r \<noteq> 200 \<or> rtype r \<noteq> Basic" by simp
  from fetch_then_other[OF this] False show ?thesis
    using assms by (auto simp: on_fetch_def response_of_def bodyUsed_def)
qed

lemma stored_after_write:
  assumes "caches_match st q = None"
  shows "(stored_in n (in_cache n (cache_put fate q r False) st) q = Some r) =
     (put_allowed q r \<and> fate = Storage_ok)"
proof (cases "put_allowed q r \<and> fate = Storage_ok")
  case True
  then show ?thesis
    by (simp add: stored_in_put)
next
  case False
  from stored_in_rejected[OF assms False] False show ?thesis
    by simp
qed

section \<open>The review proxy: claims\<close>

text \<open>
  C1. An invocation that is not a pre-flight (a \<open>GET\<close> in particular), in a state with a
  cache entry fetched less than one hour before the clock reading, gets status 200 with a
  body that is the stringified cached payload; no upstream call is made and the module
  state is unchanged.
\<close>

theorem fresh_cache_served:
  assumes "httpMethod ev \<noteq> ''OPTIONS''" "cached s = Some payload"
    "now_at_check e - cacheTime s < 60 * 60 * 1000"
  shows "handler e ev s =
     (\<lparr>statusCode = 200, headers = cors_headers, body = JSON_stringify payload\<rparr>, s, [])"
  using assms by (simp add: handler_def fresh_def CACHE_TTL_MS_def respond_def)

theorem fresh_cache_served_witness:
  "httpMethod \<lparr>httpMethod = ''GET''\<rparr> \<noteq> ''OPTIONS'' \<and>
   (1800000 :: int) - 0 < 60 * 60 * 1000 \<and>
   handler
     \<lparr>apiKey = Some ''key'', now_at_check = 1800000, now_at_store = 1800500,
      upstream = Rejects ''offline'', engine_message = plain_engine\<rparr>
     \<lparr>httpMethod = ''GET''\<rparr>
     \<lparr>cached = Some (JObj [(''reviews'', JArr [])]), cacheTime = 0\<rparr> =
     (\<lparr>statusCode = 200, headers = cors_headers,
       body = JSON_stringify (JObj [(''reviews'', JArr [])])\<rparr>,
      \<lparr>cached = Some (JObj [(''reviews'', JArr [])]), cacheTime = 0\<rparr>, [])"
  using fresh_cache_served
    [of "\<lparr>httpMethod = ''GET''\<rparr>"
        "\<lparr>cached = Some (JObj [(''reviews'', JArr [])]), cacheTime = 0\<rparr>"
        "JObj [(''reviews'', JArr [])]"
        "\<lparr>apiKey = Some ''key'', now_at_check = 1800000, now_at_store = 1800500,
          upstream = Rejects ''offline'', engine_message = plain_engine\<rparr>"]
  by simp

text \<open>
  C2, as stated: without a credential every invocation that is not a pre-flight gets
  status 500, whatever the cache holds. The handler tests the cache before the
  credential: with no credential and an entry fetched thirty minutes ago, a \<open>GET\<close>
  gets status 200 and the cached payload.
\<close>

theorem missing_credential_counterexample:
  "httpMethod \<lparr>httpMethod = ''GET''\<rparr> \<noteq> ''OPTIONS'' \<and>
   not_configured
     \<lparr>apiKey = None, now_at_check = 1800000, now_at_store = 1800000,
      upstream = Rejects ''offline'', engine_message = plain_engine\<rparr> \<and>
   handler
     \<lparr>apiKey = None, now_at_check = 1800000, now_at_store = 1800000,
      upstream = Rejects ''offline'', engine_message = plain_engine\<rparr>
     \<lparr>httpMethod = ''GET''\<rparr>
     \<lparr>cached = Some (JObj [(''reviews'', JArr [])]), cacheTime = 0\<rparr> =
     (\<lparr>statusCode = 200, headers = cors_headers,
       body = JSON_stringify (JObj [(''reviews'', JArr [])])\<rparr>,
      \<lparr>cached = Some (JObj [(''reviews'', JArr [])]), cacheTime = 0\<rparr>, [])"
  by (simp add: handler_def fresh_def CACHE_TTL_MS_def respond_def not_configured_def)

text \<open>
  C2, amended. An invocation that is not a pre-flight, with no credential configured (the
  variable unset or empty) and no fresh cache entry (none at all, or one fetched an hour
  ago or more), gets status 500 with the body
  \<open>{ error: 'YELP_API_KEY not configured', reviews: [] }\<close>; no upstream call is made
  and the module state is unchanged.
\<close>

theorem missing_credential:
  assumes "httpMethod ev \<noteq> ''OPTIONS''" "not_configured e" "\<not> fresh e s"
  shows "handler e ev s =
     (\<lparr>statusCode = 500, headers = cors_headers,
       body = JSON_stringify
         (JObj [(''error'', JStr ''YELP_API_KEY not configured''), (''reviews'', JArr [])])\<rparr>,
      s, [])"
  using assms by (simp add: handler_def respond_def error_payload_def)

theorem missing_credential_witness:
  "httpMethod \<lparr>httpMethod = ''GET''\<rparr> \<noteq> ''OPTIONS'' \<and>
   not_configured
     \<lparr>apiKey = None, now_at_check = 3660000, now_at_store = 3660000,
      upstream = Rejects ''offline'', engine_message = plain_engine\<rparr> \<and>
   \<not> fresh
     \<lparr>apiKey = None, now_at_check = 3660000, now_at_store = 3660000,
      upstream = Rejects ''offline'', engine_message = plain_engine\<rparr>
     \<lparr>cached = Some (JObj [(''reviews'', JArr [])]), cacheTime = 0\<rparr> \<and>
   handler
     \<lparr>apiKey = None, now_at_check = 3660000, now_at_store = 3660000,
      upstream = Rejects ''offline'', engine_message = plain_engine\<rparr>
     \<lparr>httpMethod = ''GET''\<rparr>
     \<lparr>cached = Some (JObj [(''reviews'', JArr [])]), cacheTime = 0\<rparr> =
     (\<lparr>statusCode = 500, headers = cors_headers,
       body = JSON_stringify
         (JObj [(''error'', JStr ''YELP_API_KEY not configured''), (''reviews'', JArr [])])\<rparr>,
      \<lparr>cached = Some (JObj [(''reviews'', JArr [])]), cacheTime = 0\<rparr>, [])"
  using missing_credential
    [of "\<lparr>httpMethod = ''GET''\<rparr>"
        "\<lparr>apiKey = None, now_at_check = 3660000, now_at_store = 3660000,
          upstream = Rejects ''offline'', engine_message = plain_engine\<rparr>"
        "\<lparr>cached = Some (JObj [(''reviews'', JArr [])]), cacheTime = 0\<rparr>"]
  by (simp add: not_configured_def fresh_def CACHE_TTL_MS_def)

text \<open>
  C3, as stated: every invocation that reaches a 2xx upstream response stores the
  normalised list and gets status 200. A 2xx response whose body is
  \<open>{"reviews": [null]}\<close> makes the callback of \<open>map\<close> read \<open>rating\<close> of \<open>null\<close>;
  the \<open>catch\<close> turns the \<open>TypeError\<close> into status 500, after one upstream call, and
  nothing is stored.
\<close>

theorem upstream_success_counterexample:
  "ok \<lparr>res_status = 200, res_json = Inr (JObj [(''reviews'', JArr [JNull])])\<rparr> \<and>
   statusCode (fst (handler
     \<lparr>apiKey = Some ''key'', now_at_check = 1000, now_at_store = 1500,
      upstream = Resolves \<lparr>res_status = 200, res_json = Inr (JObj [(''reviews'', JArr [JNull])])\<rparr>,
      engine_message = plain_engine\<rparr>
     \<lparr>httpMethod = ''GET''\<rparr>
     \<lparr>cached = None, cacheTime = 0\<rparr>)) = 500 \<and>
   fst (snd (handler
     \<lparr>apiKey = Some ''key'', now_at_check = 1000, now_at_store = 1500,
      upstream = Resolves \<lparr>res_status = 200, res_json = Inr (JObj [(''reviews'', JArr [JNull])])\<rparr>,
      engine_message = plain_engine\<rparr>
     \<lparr>httpMethod = ''GET''\<rparr>
     \<lparr>cached = None, cacheTime = 0\<rparr>)) = \<lparr>cached = None, cacheTime = 0\<rparr> \<and>
   snd (snd (handler
     \<lparr>apiKey = Some ''key'', now_at_check = 1000, now_at_store = 1500,
      upstream = Resolves \<lparr>res_status = 200, res_json = Inr (JObj [(''reviews'', JArr [JNull])])\<rparr>,
      engine_message = plain_engine\<rparr>
     \<lparr>httpMethod = ''GET''\<rparr>
     \<lparr>cached = None, cacheTime = 0\<rparr>)) = [the_call ''key'']"
  by (simp add: handler_def fresh_def not_configured_def try_block_def ok_def map_reviews_def
      get_prop_def or_else_def normalize_review_def respond_def)

text \<open>
  C3, amended. An invocation that reaches a 2xx upstream response whose body parses to a
  value other than \<open>null\<close>, with \<open>reviews\<close> falsy or an array without \<open>null\<close> entries,
  maps each upstream review \<open>r\<close> to
  \<open>{rating, text, time_created, user: {name, location}, url}\<close>, the fields copied from
  \<open>r\<close>, the name \<open>r.user?.name\<close> when that is truthy and \<open>'Anonymous'\<close> when it is
  absent, the location \<open>r.user?.location\<close> when that is truthy and \<open>'California'\<close>
  when it is absent. The list is stored as the cache entry with the clock reading taken
  at the store, and the reply is status 200 with that same payload, after one upstream
  call.
\<close>

theorem upstream_success:
  assumes "attempts_upstream e ev s" "upstream e = Resolves res" "ok res"
    "res_json res = Inr data" "well_formed data"
  shows "handler e ev s =
     (\<lparr>statusCode = 200, headers = cors_headers,
       body = JSON_stringify
         (JObj [(''reviews'', JArr (map review_object (upstream_reviews data)))])\<rparr>,
      \<lparr>cached = Some (JObj [(''reviews'', JArr (map review_object (upstream_reviews data)))]),
       cacheTime = now_at_store e\<rparr>,
      [the_call (the (apiKey e))]) \<and>
     (\<forall>r \<in> set (upstream_reviews data).
        \<exists>name location.
          review_object r =
            JObj
              [(''rating'', read_prop r ''rating''),
               (''text'', read_prop r ''text''),
               (''time_created'', read_prop r ''time_created''),
               (''user'', JObj [(''name'', name), (''location'', location)]),
               (''url'', read_prop r ''url'')] \<and>
          (opt_prop (read_prop r ''user'') ''name'' = JUndefined \<longrightarrow>
             name = JStr ''Anonymous'') \<and>
          (opt_prop (read_prop r ''user'') ''location'' = JUndefined \<longrightarrow>
             location = JStr ''California'') \<and>
          (truthy (opt_prop (read_prop r ''user'') ''name'') \<longrightarrow>
             name = opt_prop (read_prop r ''user'') ''name'') \<and>
          (truthy (opt_prop (read_prop r ''user'') ''location'') \<longrightarrow>
             location = opt_prop (read_prop r ''user'') ''location''))"
proof
  show "handler e ev s =
     (\<lparr>statusCode = 200, headers = cors_headers,
       body = JSON_stringify
         (JObj [(''reviews'', JArr (map review_object (upstream_reviews data)))])\<rparr>,
      \<lparr>cached = Some (JObj [(''reviews'', JArr (map review_object (upstream_reviews data)))]),
       cacheTime = now_at_store e\<rparr>,
      [the_call (the (apiKey e))])"
    using handler_success[OF assms(1-4) map_reviews_well_formed[OF assms(5)]]
    by (simp add: respond_def)
qed (simp add: review_object_shape)

theorem upstream_success_witness:
  "attempts_upstream
     (env_with (Some ''key'') 3660000
        (Resolves
           \<lparr>res_status = 200,
            res_json = Inr (JObj [(''reviews'',
              JArr [JObj [(''rating'', JNum 5), (''text'', JStr ''Great''),
                          (''user'', JObj [(''name'', JStr ''Ann'')])],
                    JObj [(''rating'', JNum 4)]])])\<rparr>))
     \<lparr>httpMethod = ''GET''\<rparr> stale_state \<and>
   well_formed (JObj [(''reviews'',
     JArr [JObj [(''rating'', JNum 5), (''text'', JStr ''Great''),
                 (''user'', JObj [(''name'', JStr ''Ann'')])],
           JObj [(''rating'', JNum 4)]])]) \<and>
   handler
     (env_with (Some ''key'') 3660000
        (Resolves
           \<lparr>res_status = 200,
            res_json = Inr (JObj [(''reviews'',
              JArr [JObj [(''rating'', JNum 5), (''text'', JStr ''Great''),
                          (''user'', JObj [(''name'', JStr ''Ann'')])],
                    JObj [(''rating'', JNum 4)]])])\<rparr>))
     \<lparr>httpMethod = ''GET''\<rparr> stale_state =
   (\<lparr>statusCode = 200, headers = cors_headers,
     body = JSON_stringify (JObj [(''reviews'',
       JArr [JObj [(''rating'', JNum 5), (''text'', JStr ''Great''),
                   (''time_created'', JUndefined),
                   (''user'', JObj [(''name'', JStr ''Ann''),
                                    (''location'', JStr ''California'')]),
                   (''url'', JUndefined)],
             JObj [(''rating'', JNum 4), (''text'', JUndefined),
                   (''time_created'', JUndefined),
                   (''user'', JObj [(''name'', JStr ''Anonymous''),
                                    (''location'', JStr ''California'')]),
                   (''url'', JUndefined)]])])\<rparr>,
    \<lparr>cached = Some (JObj [(''reviews'',
       JArr [JObj [(''rating'', JNum 5), (''text'', JStr ''Great''),
                   (''time_created'', JUndefined),
                   (''user'', JObj [(''name'', JStr ''Ann''),
                                    (''location'', JStr ''California'')]),
                   (''url'', JUndefined)],
             JObj [(''rating'', JNum 4), (''text'', JUndefined),
                   (''time_created'', JUndefined),
                   (''user'', JObj [(''name'', JStr ''Anonymous''),
                                    (''location'', JStr ''California'')]),
                   (''url'', JUndefined)]])]),
     cacheTime = 3660500\<rparr>,
    [the_call ''key''])"
proof -
  have w: "well_formed (JObj [(''reviews'',
     JArr [JObj [(''rating'', JNum 5), (''text'', JStr ''Great''),
                 (''user'', JObj [(''name'', JStr ''Ann'')])],
           JObj [(''rating'', JNum 4)]])])"
    by (simp add: well_formed_def or_else_def)
  have k: "ok \<lparr>res_status = 200,
            res_json = Inr (JObj [(''reviews'',
              JArr [JObj [(''rating'', JNum 5), (''text'', JStr ''Great''),
                          (''user'', JObj [(''name'', JStr ''Ann'')])],
                    JObj [(''rating'', JNum 4)]])])\<rparr>"
    by (simp add: ok_def)
  from upstream_success[OF attempts_sample _ k _ w] w show ?thesis
    by (simp add: attempts_sample)
      (simp add: env_with_def upstream_reviews_def or_else_def review_object_def opt_prop_def)
qed

text \<open>
  C4. An invocation that reaches the upstream call and fails there leaves the module state,
  \<open>cached\<close> and \<open>cacheTime\<close>, as it was, with one upstream call made: a response that is
  not 2xx gets the upstream status and the body \<open>{ error: 'Yelp API error', reviews: [] }\<close>;
  a rejection of \<open>fetch\<close> or of \<open>res.json()\<close> with message \<open>m\<close> gets status 500 and
  \<open>{ error: m, reviews: [] }\<close>; and so does, with the engine's message, a body on which
  lines 47 to 53 raise a \<open>TypeError\<close>.
\<close>

theorem upstream_failure:
  assumes "attempts_upstream e ev s"
  shows
    "(upstream e = Resolves res \<and> \<not> ok res \<longrightarrow>
        handler e ev s =
          (\<lparr>statusCode = res_status res, headers = cors_headers,
            body = JSON_stringify
              (JObj [(''error'', JStr ''Yelp API error''), (''reviews'', JArr [])])\<rparr>,
           s, [the_call (the (apiKey e))])) \<and>
     (upstream e = Rejects m \<longrightarrow>
        handler e ev s =
          (\<lparr>statusCode = 500, headers = cors_headers,
            body = JSON_stringify (JObj [(''error'', JStr m), (''reviews'', JArr [])])\<rparr>,
           s, [the_call (the (apiKey e))])) \<and>
     (upstream e = Resolves res \<and> ok res \<and> res_json res = Inl m \<longrightarrow>
        handler e ev s =
          (\<lparr>statusCode = 500, headers = cors_headers,
            body = JSON_stringify (JObj [(''error'', JStr m), (''reviews'', JArr [])])\<rparr>,
           s, [the_call (the (apiKey e))])) \<and>
     (upstream e = Resolves res \<and> ok res \<and> res_json res = Inr data \<and> \<not> well_formed data \<longrightarrow>
        (\<exists>t. handler e ev s =
          (\<lparr>statusCode = 500, headers = cors_headers,
            body = JSON_stringify
              (JObj [(''error'', JStr (engine_message e t)), (''reviews'', JArr [])])\<rparr>,
           s, [the_call (the (apiKey e))])))"
proof (intro conjI impI)
  assume "upstream e = Resolves res \<and> \<not> ok res"
  then show "handler e ev s =
     (\<lparr>statusCode = res_status res, headers = cors_headers,
       body = JSON_stringify
         (JObj [(''error'', JStr ''Yelp API error''), (''reviews'', JArr [])])\<rparr>,
      s, [the_call (the (apiKey e))])"
    using handler_not_ok[OF assms, of res] by (simp add: respond_def error_payload_def)
next
  assume "upstream e = Rejects m"
  then show "handler e ev s =
     (\<lparr>statusCode = 500, headers = cors_headers,
       body = JSON_stringify (JObj [(''error'', JStr m), (''reviews'', JArr [])])\<rparr>,
      s, [the_call (the (apiKey e))])"
    using handler_rejected[OF assms, of m] by (simp add: respond_def error_payload_def)
next
  assume "upstream e = Resolves res \<and> ok res \<and> res_json res = Inl m"
  then show "handler e ev s =
     (\<lparr>statusCode = 500, headers = cors_headers,
       body = JSON_stringify (JObj [(''error'', JStr m), (''reviews'', JArr [])])\<rparr>,
      s, [the_call (the (apiKey e))])"
    using handler_parse_failed[OF assms, of res m] by (simp add: respond_def error_payload_def)
next
  assume h: "upstream e = Resolves res \<and> ok res \<and> res_json res = Inr data \<and> \<not> well_formed data"
  then obtain err where err: "map_reviews data = Inl err"
    using map_reviews_ill_formed by blast
  then obtain t where "err = TypeError t"
    using map_reviews_Inl by blast
  with h err handler_type_error[OF assms, of res data err]
  show "\<exists>t. handler e ev s =
     (\<lparr>statusCode = 500, headers = cors_headers,
       body = JSON_stringify
         (JObj [(''error'', JStr (engine_message e t)), (''reviews'', JArr [])])\<rparr>,
      s, [the_call (the (apiKey e))])"
    by (auto simp: respond_def error_payload_def)
qed

theorem upstream_failure_witness:
  "attempts_upstream (env_with (Some ''key'') 3660000 (Rejects ''fetch failed''))
     \<lparr>httpMethod = ''GET''\<rparr> stale_state \<and>
   handler
     (env_with (Some ''key'') 3660000
        (Resolves \<lparr>res_status = 503, res_json = Inl ''Unexpected token''\<rparr>))
     \<lparr>httpMethod = ''GET''\<rparr> stale_state =
     (\<lparr>statusCode = 503, headers = cors_headers,
       body = JSON_stringify
         (JObj [(''error'', JStr ''Yelp API error''), (''reviews'', JArr [])])\<rparr>,
      stale_state, [the_call ''key'']) \<and>
   handler (env_with (Some ''key'') 3660000 (Rejects ''fetch failed''))
     \<lparr>httpMethod = ''GET''\<rparr> stale_state =
     (\<lparr>statusCode = 500, headers = cors_headers,
       body = JSON_stringify
         (JObj [(''error'', JStr ''fetch failed''), (''reviews'', JArr [])])\<rparr>,
      stale_state, [the_call ''key'']) \<and>
   handler
     (env_with (Some ''key'') 3660000
        (Resolves \<lparr>res_status = 200, res_json = Inl ''Unexpected token''\<rparr>))
     \<lparr>httpMethod = ''GET''\<rparr> stale_state =
     (\<lparr>statusCode = 500, headers = cors_headers,
       body = JSON_stringify
         (JObj [(''error'', JStr ''Unexpected token''), (''reviews'', JArr [])])\<rparr>,
      stale_state, [the_call ''key'']) \<and>
   handler
     (env_with (Some ''key'') 3660000
        (Resolves \<lparr>res_status = 200, res_json = Inr (JObj [(''reviews'', JArr [JNull])])\<rparr>))
     \<lparr>httpMethod = ''GET''\<rparr> stale_state =
     (\<lparr>statusCode = 500, headers = cors_headers,
       body = JSON_stringify
         (JObj [(''error'', JStr ''TypeError''), (''reviews'', JArr [])])\<rparr>,
      stale_state, [the_call ''key''])"
  using
    upstream_failure
      [where e = "env_with (Some ''key'') 3660000
          (Resolves \<lparr>res_status = 503, res_json = Inl ''Unexpected token''\<rparr>)"
        and ev = "\<lparr>httpMethod = ''GET''\<rparr>" and s = stale_state
        and res = "\<lparr>res_status = 503, res_json = Inl ''Unexpected token''\<rparr>"]
    upstream_failure
      [where e = "env_with (Some ''key'') 3660000 (Rejects ''fetch failed'')"
        and ev = "\<lparr>httpMethod = ''GET''\<rparr>" and s = stale_state and m = "''fetch failed''"]
    upstream_failure
      [where e = "env_with (Some ''key'') 3660000
          (Resolves \<lparr>res_status = 200, res_json = Inl ''Unexpected token''\<rparr>)"
        and ev = "\<lparr>httpMethod = ''GET''\<rparr>" and s = stale_state
        and res = "\<lparr>res_status = 200, res_json = Inl ''Unexpected token''\<rparr>"
        and m = "''Unexpected token''"]
    upstream_failure
      [where e = "env_with (Some ''key'') 3660000
          (Resolves \<lparr>res_status = 200, res_json = Inr (JObj [(''reviews'', JArr [JNull])])\<rparr>)"
        and ev = "\<lparr>httpMethod = ''GET''\<rparr>" and s = stale_state
        and res = "\<lparr>res_status = 200, res_json = Inr (JObj [(''reviews'', JArr [JNull])])\<rparr>"
        and data = "JObj [(''reviews'', JArr [JNull])]"]
  by (simp add: attempts_sample)
    (simp add: env_with_def ok_def well_formed_def or_else_def plain_engine_def)

text \<open>
  C9. A pre-flight (\<open>OPTIONS\<close>) gets status 204 with an empty body and the headers
  \<open>Access-Control-Allow-Origin: *\<close> and \<open>Access-Control-Allow-Headers: Content-Type\<close>,
  whatever the cache and the credential are; no upstream call is made and the module state
  is unchanged.
\<close>

theorem options_preflight:
  assumes "httpMethod ev = ''OPTIONS''"
  shows "handler e ev s =
     (\<lparr>statusCode = 204,
       headers =
         [(''Access-Control-Allow-Origin'', ''*''),
          (''Access-Control-Allow-Headers'', ''Content-Type''),
          (''Content-Type'', ''application/json'')],
       body = Literal ''''\<rparr>,
      s, [])"
  using assms by (simp add: handler_def respond_def cors_headers_def)

theorem options_preflight_witness:
  "httpMethod \<lparr>httpMethod = ''OPTIONS''\<rparr> = ''OPTIONS'' \<and>
   handler
     \<lparr>apiKey = None, now_at_check = 1800000, now_at_store = 1800000,
      upstream = Rejects ''offline'', engine_message = plain_engine\<rparr>
     \<lparr>httpMethod = ''OPTIONS''\<rparr>
     \<lparr>cached = Some (JObj [(''reviews'', JArr [])]), cacheTime = 0\<rparr> =
     (\<lparr>statusCode = 204,
       headers =
         [(''Access-Control-Allow-Origin'', ''*''),
          (''Access-Control-Allow-Headers'', ''Content-Type''),
          (''Content-Type'', ''application/json'')],
       body = Literal ''''\<rparr>,
      \<lparr>cached = Some (JObj [(''reviews'', JArr [])]), cacheTime = 0\<rparr>, [])"
  using options_preflight
    [of "\<lparr>httpMethod = ''OPTIONS''\<rparr>"
        "\<lparr>apiKey = None, now_at_check = 1800000, now_at_store = 1800000,
          upstream = Rejects ''offline'', engine_message = plain_engine\<rparr>"
        "\<lparr>cached = Some (JObj [(''reviews'', JArr [])]), cacheTime = 0\<rparr>"]
  by simp

text \<open>
  C10. On a 2xx upstream response whose body has no \<open>reviews\<close> field, or a \<open>null\<close>
  one, the reply is status 200 with \<open>{ reviews: [] }\<close> and the empty list is stored, so
  that a later invocation within the hour is served the empty list without an upstream
  call. When \<open>reviews\<close> is an array, the reply is status 200 if no entry is \<open>null\<close>,
  and whenever the reply is status 200 its list, which is the stored one, is as long as the
  upstream array and holds at each index the normalised review of that index.
\<close>

theorem missing_reviews_and_order:
  assumes "attempts_upstream e ev s" "upstream e = Resolves res" "ok res"
    "res_json res = Inr data"
  shows
    "(get_prop data ''reviews'' = Inr JUndefined \<or> get_prop data ''reviews'' = Inr JNull \<longrightarrow>
        handler e ev s =
          (\<lparr>statusCode = 200, headers = cors_headers,
            body = JSON_stringify (JObj [(''reviews'', JArr [])])\<rparr>,
           \<lparr>cached = Some (JObj [(''reviews'', JArr [])]), cacheTime = now_at_store e\<rparr>,
           [the_call (the (apiKey e))]) \<and>
        (httpMethod ev' \<noteq> ''OPTIONS'' \<and> now_at_check e' - now_at_store e < 60 * 60 * 1000 \<longrightarrow>
           handler e' ev' (fst (snd (handler e ev s))) =
             (\<lparr>statusCode = 200, headers = cors_headers,
               body = JSON_stringify (JObj [(''reviews'', JArr [])])\<rparr>,
              fst (snd (handler e ev s)), []))) \<and>
     (get_prop data ''reviews'' = Inr (JArr rs) \<longrightarrow>
        (list_all (\<lambda>r. \<not> nullish r) rs \<longrightarrow> statusCode (fst (handler e ev s)) = 200) \<and>
        (statusCode (fst (handler e ev s)) = 200 \<longrightarrow>
           (\<exists>out.
              body (fst (handler e ev s)) = JSON_stringify (JObj [(''reviews'', JArr out)]) \<and>
              cached (fst (snd (handler e ev s))) = Some (JObj [(''reviews'', JArr out)]) \<and>
              length out = length rs \<and>
              (\<forall>i < length rs. normalize_review (rs ! i) = Inr (out ! i)))))"
proof (intro conjI impI)
  assume absent: "get_prop data ''reviews'' = Inr JUndefined \<or> get_prop data ''reviews'' = Inr JNull"
  then have "map_reviews data = Inr []"
    by (auto intro: map_reviews_absent)
  from handler_success[OF assms this]
  show first: "handler e ev s =
     (\<lparr>statusCode = 200, headers = cors_headers,
       body = JSON_stringify (JObj [(''reviews'', JArr [])])\<rparr>,
      \<lparr>cached = Some (JObj [(''reviews'', JArr [])]), cacheTime = now_at_store e\<rparr>,
      [the_call (the (apiKey e))])"
    by (simp add: respond_def)
  assume "httpMethod ev' \<noteq> ''OPTIONS'' \<and> now_at_check e' - now_at_store e < 60 * 60 * 1000"
  then show "handler e' ev' (fst (snd (handler e ev s))) =
     (\<lparr>statusCode = 200, headers = cors_headers,
       body = JSON_stringify (JObj [(''reviews'', JArr [])])\<rparr>,
      fst (snd (handler e ev s)), [])"
    unfolding first
    by (simp add: handler_fresh[where payload = "JObj [(''reviews'', JArr [])]"]
        CACHE_TTL_MS_def respond_def)
next
  assume arr: "get_prop data ''reviews'' = Inr (JArr rs)" and "list_all (\<lambda>r. \<not> nullish r) rs"
  then have "well_formed data"
    by (simp add: well_formed_array)
  from handler_success[OF assms map_reviews_well_formed[OF this]]
  show "statusCode (fst (handler e ev s)) = 200"
    by (simp add: respond_def)
next
  assume arr: "get_prop data ''reviews'' = Inr (JArr rs)"
    and status: "statusCode (fst (handler e ev s)) = 200"
  have wf: "well_formed data"
    using handler_ill_formed_status[OF assms] status by fastforce
  then have all: "list_all (\<lambda>r. \<not> nullish r) rs"
    using arr by (simp add: well_formed_array)
  have "handler e ev s =
     (respond 200 (JSON_stringify (JObj [(''reviews'', JArr (map review_object rs))])),
      \<lparr>cached = Some (JObj [(''reviews'', JArr (map review_object rs))]),
       cacheTime = now_at_store e\<rparr>,
      [the_call (the (apiKey e))])"
    using handler_success[OF assms map_reviews_well_formed[OF wf]] arr
    by (simp add: well_formed_array)
  moreover have "\<forall>i < length rs. normalize_review (rs ! i) = Inr (map review_object rs ! i)"
    using all by (simp add: list_all_length normalize_review_ok)
  ultimately show "\<exists>out.
      body (fst (handler e ev s)) = JSON_stringify (JObj [(''reviews'', JArr out)]) \<and>
      cached (fst (snd (handler e ev s))) = Some (JObj [(''reviews'', JArr out)]) \<and>
      length out = length rs \<and>
      (\<forall>i < length rs. normalize_review (rs ! i) = Inr (out ! i))"
    by (intro exI[where x = "map review_object rs"]) (simp add: respond_def)
qed

theorem missing_reviews_and_order_witness:
  "attempts_upstream
     (env_with (Some ''key'') 3660000 (Resolves \<lparr>res_status = 200, res_json = Inr (JObj [])\<rparr>))
     \<lparr>httpMethod = ''GET''\<rparr> stale_state \<and>
   handler
     (env_with (Some ''key'') 3660000 (Resolves \<lparr>res_status = 200, res_json = Inr (JObj [])\<rparr>))
     \<lparr>httpMethod = ''GET''\<rparr> stale_state =
     (\<lparr>statusCode = 200, headers = cors_headers,
       body = JSON_stringify (JObj [(''reviews'', JArr [])])\<rparr>,
      \<lparr>cached = Some (JObj [(''reviews'', JArr [])]), cacheTime = 3660500\<rparr>,
      [the_call ''key'']) \<and>
   handler (env_with None 5000000 (Rejects ''offline'')) \<lparr>httpMethod = ''GET''\<rparr>
     \<lparr>cached = Some (JObj [(''reviews'', JArr [])]), cacheTime = 3660500\<rparr> =
     (\<lparr>statusCode = 200, headers = cors_headers,
       body = JSON_stringify (JObj [(''reviews'', JArr [])])\<rparr>,
      \<lparr>cached = Some (JObj [(''reviews'', JArr [])]), cacheTime = 3660500\<rparr>, []) \<and>
   statusCode (fst (handler
     (env_with (Some ''key'') 3660000
        (Resolves \<lparr>res_status = 200,
           res_json = Inr (JObj [(''reviews'', JArr [JObj [(''rating'', JNum 5)], JObj []])])\<rparr>))
     \<lparr>httpMethod = ''GET''\<rparr> stale_state)) = 200"
  using
    missing_reviews_and_order
      [where e = "env_with (Some ''key'') 3660000
          (Resolves \<lparr>res_status = 200, res_json = Inr (JObj [])\<rparr>)"
        and ev = "\<lparr>httpMethod = ''GET''\<rparr>" and s = stale_state
        and res = "\<lparr>res_status = 200, res_json = Inr (JObj [])\<rparr>" and data = "JObj []"
        and e' = "env_with None 5000000 (Rejects ''offline'')"
        and ev' = "\<lparr>httpMethod = ''GET''\<rparr>"]
    missing_reviews_and_order
      [where e = "env_with (Some ''key'') 3660000
          (Resolves \<lparr>res_status = 200,
             res_json = Inr (JObj [(''reviews'', JArr [JObj [(''rating'', JNum 5)], JObj []])])\<rparr>)"
        and ev = "\<lparr>httpMethod = ''GET''\<rparr>" and s = stale_state
        and res = "\<lparr>res_status = 200,
             res_json = Inr (JObj [(''reviews'', JArr [JObj [(''rating'', JNum 5)], JObj []])])\<rparr>"
        and data = "JObj [(''reviews'', JArr [JObj [(''rating'', JNum 5)], JObj []])]"
        and rs = "[JObj [(''rating'', JNum 5)], JObj []]"]
  by (simp add: attempts_sample) (auto simp: env_with_def ok_def get_prop_def)

section \<open>The asset cache worker: claims\<close>

text \<open>
  C5, as stated: on a miss, a copy of the fetched response is stored exactly when the
  response has status 200 and type \<open>basic\<close>. The listener starts the write for such a
  response and neither waits for it nor handles its failure: a response of status 200 and
  type \<open>basic\<close> that carries \<open>Vary: *\<close> is returned to the page, \<open>cache.put\<close> rejects
  it, and nothing is stored.
\<close>

theorem cache_first_counterexample:
  "on_fetch ''https://ruzanovafit.com''
     (Fetched \<lparr>status = 200, rtype = Basic, vary = [''*''], content = ''body {}''\<rparr>)
     Storage_ok
     \<lparr>request_method = ''GET'', url = ''https://ruzanovafit.com/extra.css'',
      destination = ''style'', request_headers = []\<rparr>
     sample_storage =
     (Responded_with
        (Some (\<lparr>status = 200, rtype = Basic, vary = [''*''], content = ''body {}''\<rparr>, False)),
      sample_storage, [''https://ruzanovafit.com/extra.css'']) \<and>
   stored_in CACHE_NAME sample_storage
     \<lparr>request_method = ''GET'', url = ''https://ruzanovafit.com/extra.css'',
      destination = ''style'', request_headers = []\<rparr> = None"
  by (simp add: on_fetch_def fetch_then_def new_object_def clone_def response_of_def
      bodyUsed_def open_and_put_def cache_put_def put_allowed_def sample_storage_def
      CACHE_NAME_def cache_match_def matches_def strip_fragment_def stored_in_def)

text \<open>
  C5, amended. For a \<open>GET\<close> request whose URL starts with the worker's origin, as that
  of every same-origin request does: when some cache holds a match for the request, the
  listener answers with the cached response and fetches nothing; when none does, it
  fetches the request once, and on a response it answers with that response, the original
  object with its body unread, and, exactly when the status is 200 and the type is
  \<open>basic\<close>, starts a write of a clone to the cache \<open>CACHE_NAME\<close>. The copy is stored
  exactly when, besides, the Cache API accepts the pair (no \<open>Vary: *\<close>, an http(s)
  URL), the quota suffices and the worker is not stopped before the write runs; the
  stored responses are otherwise unchanged.
\<close>

theorem cache_first:
  assumes "request_method req = ''GET''" "prefix origin (url req)"
  shows
    "(caches_match st req = Some c \<longrightarrow>
        on_fetch origin net fate req st = (Responded_with (Some (c, False)), st, [])) \<and>
     (caches_match st req = None \<longrightarrow>
        snd (snd (on_fetch origin net fate req st)) = [url req]) \<and>
     (caches_match st req = None \<and> net = Fetched r \<longrightarrow>
        on_fetch origin net fate req st =
          (Responded_with (Some (r, False)),
           (if status r = 200 \<and> rtype r = Basic \<and> fate \<noteq> Worker_stopped
            then in_cache CACHE_NAME (cache_put fate req r False) st else st),
           [url req]) \<and>
        (stored_in CACHE_NAME (fst (snd (on_fetch origin net fate req st))) req = Some r) =
          (status r = 200 \<and> rtype r = Basic \<and> put_allowed req r \<and> fate = Storage_ok))"
proof (intro conjI impI)
  assume "caches_match st req = Some c"
  with assms show "on_fetch origin net fate req st = (Responded_with (Some (c, False)), st, [])"
    by (simp add: on_fetch_def)
next
  assume "caches_match st req = None"
  with assms show "snd (snd (on_fetch origin net fate req st)) = [url req]"
    by (simp add: on_fetch_def split: option.splits prod.splits)
next
  assume h: "caches_match st req = None \<and> net = Fetched r"
  then have miss: "caches_match st req = None" and net: "net = Fetched r"
    by simp_all
  show eq: "on_fetch origin net fate req st =
     (Responded_with (Some (r, False)),
      (if status r = 200 \<and> rtype r = Basic \<and> fate \<noteq> Worker_stopped
       then in_cache CACHE_NAME (cache_put fate req r False) st else st),
      [url req])"
    unfolding net by (rule on_fetch_fetched[OF assms miss])
  show "(stored_in CACHE_NAME (fst (snd (on_fetch origin net fate req st))) req = Some r) =
     (status r = 200 \<and> rtype r = Basic \<and> put_allowed req r \<and> fate = Storage_ok)"
    unfolding eq using stored_after_write[OF miss] stored_in_miss[OF miss]
    by auto
qed

theorem cache_first_witness:
  "prefix ''https://ruzanovafit.com'' ''https://ruzanovafit.com/index.html#top'' \<and>
   on_fetch ''https://ruzanovafit.com'' Fetch_failed Storage_ok
     \<lparr>request_method = ''GET'', url = ''https://ruzanovafit.com/index.html#top'',
      destination = ''document'', request_headers = [(''accept'', ''text/html'')]\<rparr>
     sample_storage =
     (Responded_with
        (Some (\<lparr>status = 200, rtype = Basic, vary = [], content = ''<html>''\<rparr>, False)),
      sample_storage, []) \<and>
   on_fetch ''https://ruzanovafit.com''
     (Fetched \<lparr>status = 200, rtype = Basic, vary = [], content = ''body {}''\<rparr>)
     Storage_ok
     \<lparr>request_method = ''GET'', url = ''https://ruzanovafit.com/extra.css'',
      destination = ''style'', request_headers = []\<rparr>
     sample_storage =
     (Responded_with
        (Some (\<lparr>status = 200, rtype = Basic, vary = [], content = ''body {}''\<rparr>, False)),
      [(''ruzanova-fitness-v4'',
        [(\<lparr>request_method = ''GET'', url = ''https://ruzanovafit.com/index.html'',
           destination = '''', request_headers = []\<rparr>,
          \<lparr>status = 200, rtype = Basic, vary = [], content = ''<html>''\<rparr>),
         (\<lparr>request_method = ''GET'', url = ''https://ruzanovafit.com/extra.css'',
           destination = ''style'', request_headers = []\<rparr>,
          \<lparr>status = 200, rtype = Basic, vary = [], content = ''body {}''\<rparr>)])],
      [''https://ruzanovafit.com/extra.css'']) \<and>
   on_fetch ''https://ruzanovafit.com''
     (Fetched \<lparr>status = 404, rtype = Basic, vary = [], content = ''Not found''\<rparr>)
     Storage_ok
     \<lparr>request_method = ''GET'', url = ''https://ruzanovafit.com/extra.css'',
      destination = ''style'', request_headers = []\<rparr>
     sample_storage =
     (Responded_with
        (Some (\<lparr>status = 404, rtype = Basic, vary = [], content = ''Not found''\<rparr>, False)),
      sample_storage, [''https://ruzanovafit.com/extra.css''])"
  using
    cache_first
      [where origin = "''https://ruzanovafit.com''" and net = Fetch_failed and fate = Storage_ok
        and req = "\<lparr>request_method = ''GET'', url = ''https://ruzanovafit.com/index.html#top'',
                     destination = ''document'', request_headers = [(''accept'', ''text/html'')]\<rparr>"
        and st = sample_storage
        and c = "\<lparr>status = 200, rtype = Basic, vary = [], content = ''<html>''\<rparr>"]
    cache_first
      [where origin = "''https://ruzanovafit.com''" and fate = Storage_ok
        and net = "Fetched \<lparr>status = 200, rtype = Basic, vary = [], content = ''body {}''\<rparr>"
        and req = "\<lparr>request_method = ''GET'', url = ''https://ruzanovafit.com/extra.css'',
                     destination = ''style'', request_headers = []\<rparr>"
        and st = sample_storage
        and r = "\<lparr>status = 200, rtype = Basic, vary = [], content = ''body {}''\<rparr>"]
    cache_first
      [where origin = "''https://ruzanovafit.com''" and fate = Storage_ok
        and net = "Fetched \<lparr>status = 404, rtype = Basic, vary = [], content = ''Not found''\<rparr>"
        and req = "\<lparr>request_method = ''GET'', url = ''https://ruzanovafit.com/extra.css'',
                     destination = ''style'', request_headers = []\<rparr>"
        and st = sample_storage
        and r = "\<lparr>status = 404, rtype = Basic, vary = [], content = ''Not found''\<rparr>"]
  by (simp add: sample_storage_def CACHE_NAME_def cache_put_def put_allowed_def
      cache_match_def matches_def strip_fragment_def)

text \<open>
  C6. Activation keeps the caches named \<open>CACHE_NAME\<close>, with their contents, and deletes
  all others: a name listed before activation is no longer listed afterwards exactly
  when it differs from \<open>CACHE_NAME\<close>, and no other name is listed afterwards.
\<close>

theorem activate_purges:
  "activate st = filter (\<lambda>(n, c). n = CACHE_NAME) st \<and>
   (\<forall>n \<in> set (caches_keys st). (n \<notin> set (caches_keys (activate st))) = (n \<noteq> CACHE_NAME)) \<and>
   set (caches_keys (activate st)) \<subseteq> {CACHE_NAME}"
  by (auto simp: activate_filter caches_keys_def)

theorem activate_purges_witness:
  "activate
     [(''ruzanova-fitness-v3'',
       [(index_request ''https://ruzanovafit.com'',
         \<lparr>status = 200, rtype = Basic, vary = [], content = ''old''\<rparr>)]),
      (''ruzanova-fitness-v4'',
       [(index_request ''https://ruzanovafit.com'',
         \<lparr>status = 200, rtype = Basic, vary = [], content = ''new''\<rparr>)]),
      (''fonts'', [])] =
     [(''ruzanova-fitness-v4'',
       [(index_request ''https://ruzanovafit.com'',
         \<lparr>status = 200, rtype = Basic, vary = [], content = ''new''\<rparr>)])]"
  using activate_purges
    [of "[(''ruzanova-fitness-v3'',
       [(index_request ''https://ruzanovafit.com'',
         \<lparr>status = 200, rtype = Basic, vary = [], content = ''old''\<rparr>)]),
      (''ruzanova-fitness-v4'',
       [(index_request ''https://ruzanovafit.com'',
         \<lparr>status = 200, rtype = Basic, vary = [], content = ''new''\<rparr>)]),
      (''fonts'', [])]"]
  by (simp add: CACHE_NAME_def)

text \<open>
  C7. The listener is to pass every request of a foreign origin through. It tests whether
  the URL starts with the origin string, which the URL of a foreign host that extends the
  worker's host name does: for such a \<open>GET\<close> the listener answers itself, after looking
  the request up in the caches and fetching it.
\<close>

theorem external_request_not_skipped:
  "url_origin ''https://ruzanovafit.com.evil.example/x'' \<noteq> ''https://ruzanovafit.com'' \<and>
   on_fetch ''https://ruzanovafit.com''
     (Fetched \<lparr>status = 200, rtype = Cors, vary = [], content = ''x''\<rparr>)
     Storage_ok
     \<lparr>request_method = ''GET'', url = ''https://ruzanovafit.com.evil.example/x'',
      destination = '''', request_headers = []\<rparr>
     [(''ruzanova-fitness-v4'', [])] =
     (Responded_with (Some (\<lparr>status = 200, rtype = Cors, vary = [], content = ''x''\<rparr>, False)),
      [(''ruzanova-fitness-v4'', [])],
      [''https://ruzanovafit.com.evil.example/x''])"
  by (simp add: url_origin_def on_fetch_def fetch_then_def new_object_def response_of_def
      bodyUsed_def cache_match_def)

theorem external_request_not_skipped_witness:
  "fst (on_fetch ''https://ruzanovafit.com''
     (Fetched \<lparr>status = 200, rtype = Cors, vary = [], content = ''x''\<rparr>)
     Storage_ok
     \<lparr>request_method = ''GET'', url = ''https://ruzanovafit.com.evil.example/x'',
      destination = '''', request_headers = []\<rparr>
     [(''ruzanova-fitness-v4'', [])]) \<noteq> Passed_through"
  using external_request_not_skipped by simp

text \<open>
  C8. For a \<open>GET\<close> request whose URL starts with the worker's origin, for which no
  cache holds a match and whose fetch fails: a request for a document is answered with
  the response that the caches hold for \<open>/index.html\<close>, when they hold one; any other
  request, and a document request when no cache holds a match for \<open>/index.html\<close>, is
  answered with \<open>undefined\<close>, a failed fetch for the page. The storage is unchanged.
\<close>

theorem offline_fallback:
  assumes "request_method req = ''GET''" "prefix origin (url req)"
    "caches_match st req = None"
  shows
    "(destination req = ''document'' \<and> caches_match st (index_request origin) = Some r \<longrightarrow>
        on_fetch origin Fetch_failed fate req st =
          (Responded_with (Some (r, False)), st, [url req])) \<and>
     (destination req \<noteq> ''document'' \<or> caches_match st (index_request origin) = None \<longrightarrow>
        on_fetch origin Fetch_failed fate req st = (Responded_with None, st, [url req]))"
  using assms by (auto simp: on_fetch_def fetch_then_def)

theorem offline_fallback_witness:
  "caches_match sample_storage
     \<lparr>request_method = ''GET'', url = ''https://ruzanovafit.com/booking.html'',
      destination = ''document'', request_headers = []\<rparr> = None \<and>
   on_fetch ''https://ruzanovafit.com'' Fetch_failed Storage_ok
     \<lparr>request_method = ''GET'', url = ''https://ruzanovafit.com/booking.html'',
      destination = ''document'', request_headers = []\<rparr>
     sample_storage =
     (Responded_with
        (Some (\<lparr>status = 200, rtype = Basic, vary = [], content = ''<html>''\<rparr>, False)),
      sample_storage, [''https://ruzanovafit.com/booking.html'']) \<and>
   on_fetch ''https://ruzanovafit.com'' Fetch_failed Storage_ok
     \<lparr>request_method = ''GET'', url = ''https://ruzanovafit.com/booking.html'',
      destination = ''document'', request_headers = []\<rparr>
     [(''ruzanova-fitness-v4'',
       [(\<lparr>request_method = ''GET'', url = ''https://ruzanovafit.com/index.html#x'',
          destination = '''', request_headers = []\<rparr>,
         \<lparr>status = 200, rtype = Basic, vary = [], content = ''<html>''\<rparr>)])] =
     (Responded_with
        (Some (\<lparr>status = 200, rtype = Basic, vary = [], content = ''<html>''\<rparr>, False)),
      [(''ruzanova-fitness-v4'',
       [(\<lparr>request_method = ''GET'', url = ''https://ruzanovafit.com/index.html#x'',
          destination = '''', request_headers = []\<rparr>,
         \<lparr>status = 200, rtype = Basic, vary = [], content = ''<html>''\<rparr>)])],
      [''https://ruzanovafit.com/booking.html'']) \<and>
   on_fetch ''https://ruzanovafit.com'' Fetch_failed Storage_ok
     \<lparr>request_method = ''GET'', url = ''https://ruzanovafit.com/photo.jpg'',
      destination = ''image'', request_headers = []\<rparr>
     sample_storage =
     (Responded_with None, sample_storage, [''https://ruzanovafit.com/photo.jpg''])"
  using
    offline_fallback
      [where origin = "''https://ruzanovafit.com''" and fate = Storage_ok
        and req = "\<lparr>request_method = ''GET'', url = ''https://ruzanovafit.com/booking.html'',
                     destination = ''document'', request_headers = []\<rparr>"
        and st = sample_storage
        and r = "\<lparr>status = 200, rtype = Basic, vary = [], content = ''<html>''\<rparr>"]
    offline_fallback
      [where origin = "''https://ruzanovafit.com''" and fate = Storage_ok
        and req = "\<lparr>request_method = ''GET'', url = ''https://ruzanovafit.com/booking.html'',
                     destination = ''document'', request_headers = []\<rparr>"
        and st = "[(''ruzanova-fitness-v4'',
           [(\<lparr>request_method = ''GET'', url = ''https://ruzanovafit.com/index.html#x'',
              destination = '''', request_headers = []\<rparr>,
             \<lparr>status = 200, rtype = Basic, vary = [], content = ''<html>''\<rparr>)])]"
        and r = "\<lparr>status = 200, rtype = Basic, vary = [], content = ''<html>''\<rparr>"]
    offline_fallback
      [where origin = "''https://ruzanovafit.com''" and fate = Storage_ok
        and req = "\<lparr>request_method = ''GET'', url = ''https://ruzanovafit.com/photo.jpg'',
                     destination = ''image'', request_headers = []\<rparr>"
        and st = sample_storage]
  by (simp add: sample_storage_def index_request_def cache_match_def matches_def
      strip_fragment_def)

end
